theory Spec2Isabelle
  imports Complex_Main
begin

section \<open>JavaScript numbers\<close>

text \<open>
  A JavaScript number is modelled as a finite value, one of the two infinities, or NaN.
  Finite values are exact reals: the rounding of IEEE-754 double arithmetic and overflow
  to an infinity are abstracted away, and the two zeros are identified. The special value
  NaN is kept, because the program produces it (\<^verbatim>\<open>0 / 0\<close>, \<^verbatim>\<open>parseFloat("")\<close>).
\<close>

datatype jsnum = Fin real | PInf | NInf | NaN

fun jsgn :: "jsnum \<Rightarrow> real" where
  "jsgn (Fin v) = sgn v"
| "jsgn PInf = 1"
| "jsgn NInf = - 1"
| "jsgn NaN = 0"

definition inf_of_sign :: "real \<Rightarrow> jsnum" where
  "inf_of_sign s = (if s > 0 then PInf else if s < 0 then NInf else NaN)"

fun jneg :: "jsnum \<Rightarrow> jsnum" where
  "jneg (Fin v) = Fin (- v)"
| "jneg PInf = NInf"
| "jneg NInf = PInf"
| "jneg NaN = NaN"

text \<open>\<^verbatim>\<open>a + b\<close>: the sum of opposite infinities is NaN.\<close>

fun jadd :: "jsnum \<Rightarrow> jsnum \<Rightarrow> jsnum" where
  "jadd (Fin v) (Fin w) = Fin (v + w)"
| "jadd NaN _ = NaN"
| "jadd _ NaN = NaN"
| "jadd PInf NInf = NaN"
| "jadd NInf PInf = NaN"
| "jadd PInf _ = PInf"
| "jadd NInf _ = NInf"
| "jadd (Fin v) w = w"

definition jsub :: "jsnum \<Rightarrow> jsnum \<Rightarrow> jsnum" where
  "jsub v w = jadd v (jneg w)"

text \<open>\<^verbatim>\<open>a * b\<close>: an infinity times zero is NaN.\<close>

fun jmul :: "jsnum \<Rightarrow> jsnum \<Rightarrow> jsnum" where
  "jmul (Fin v) (Fin w) = Fin (v * w)"
| "jmul NaN _ = NaN"
| "jmul _ NaN = NaN"
| "jmul v w = inf_of_sign (jsgn v * jsgn w)"

text \<open>
  \<^verbatim>\<open>a / b\<close>: division never raises. \<^verbatim>\<open>0 / 0\<close> and the quotient of two infinities are
  NaN, a nonzero finite value over zero is an infinity (the zero divisor is taken as
  \<^verbatim>\<open>+0\<close>; the only divisor in the program is an array length).
\<close>

fun jdiv :: "jsnum \<Rightarrow> jsnum \<Rightarrow> jsnum" where
  "jdiv (Fin v) (Fin w) = (if w = 0 then inf_of_sign v else Fin (v / w))"
| "jdiv NaN _ = NaN"
| "jdiv _ NaN = NaN"
| "jdiv (Fin v) _ = Fin 0"
| "jdiv v (Fin w) = inf_of_sign (jsgn v * (if w < 0 then - 1 else 1))"
| "jdiv _ _ = NaN"

text \<open>
  \<^verbatim>\<open>parseFloat(v.toFixed(4))\<close>. \<^verbatim>\<open>toFixed(4)\<close> picks the integer \<open>n\<close> with \<open>n / 10^4\<close>
  nearest to the magnitude of \<open>v\<close>, the larger one on a tie, and keeps the sign; from
  \<open>10^21\<close> on it prints the number itself. NaN and the infinities print as their names,
  which \<^verbatim>\<open>parseFloat\<close> reads back.
\<close>

fun toFixed4 :: "jsnum \<Rightarrow> jsnum" where
  "toFixed4 (Fin v) =
     (if \<bar>v\<bar> \<ge> 10 ^ 21 then Fin v
      else Fin (sgn v * (of_int \<lfloor>\<bar>v\<bar> * 10 ^ 4 + 1 / 2\<rfloor> / 10 ^ 4)))"
| "toFixed4 v = v"

text \<open>\<^verbatim>\<open>v || 0\<close> on a number: NaN and zero are falsy.\<close>

definition or0 :: "jsnum \<Rightarrow> jsnum" where
  "or0 v = (if v = NaN \<or> v = Fin 0 then Fin 0 else v)"

subsection \<open>parseFloat\<close>

text \<open>
  \<^verbatim>\<open>parseFloat\<close> on a string skips leading white space and reads the longest prefix that
  is a decimal literal: an optional sign, then \<^verbatim>\<open>Infinity\<close> or digits with an optional
  fraction and an optional exponent. With no such prefix the result is NaN. Characters
  are bytes here, so the white space skipped is the ASCII one; the value of the literal
  is exact.
\<close>

definition isWs :: "char \<Rightarrow> bool" where
  "isWs c = (c \<in> set [CHR 0x09, CHR 0x0A, CHR 0x0B, CHR 0x0C, CHR 0x0D, CHR '' ''])"

definition isDigit :: "char \<Rightarrow> bool" where
  "isDigit c = (c \<in> set ''0123456789'')"

definition digitsVal :: "string \<Rightarrow> nat" where
  "digitsVal ds = foldl (\<lambda>acc c. 10 * acc + (of_char c - 48)) 0 ds"

definition splitSign :: "string \<Rightarrow> real \<times> string" where
  "splitSign s =
     (case s of
        c # r \<Rightarrow> if c = CHR ''-'' then (- 1, r) else if c = CHR ''+'' then (1, r) else (1, s)
      | [] \<Rightarrow> (1, s))"

definition exponentPart :: "string \<Rightarrow> int" where
  "exponentPart s =
     (case s of
        c # r \<Rightarrow>
          if c = CHR ''e'' \<or> c = CHR ''E'' then
            (let (es, d) = splitSign r; ds = takeWhile isDigit d
             in if ds = [] then 0 else (if es < 0 then - int (digitsVal ds) else int (digitsVal ds)))
          else 0
      | [] \<Rightarrow> 0)"

definition pow10 :: "int \<Rightarrow> real" where
  "pow10 e = (if e \<ge> 0 then 10 ^ nat e else 1 / 10 ^ nat (- e))"

definition parseFloatStr :: "string \<Rightarrow> jsnum" where
  "parseFloatStr s =
     (let (sg, u) = splitSign (dropWhile isWs s) in
      if take 8 u = ''Infinity'' then inf_of_sign sg
      else
        let ip = takeWhile isDigit u;
            r1 = dropWhile isDigit u;
            (fp, r2) = (case r1 of
                          c # r \<Rightarrow> if c = CHR ''.''
                                   then (takeWhile isDigit r, dropWhile isDigit r)
                                   else ([], r1)
                        | [] \<Rightarrow> ([], r1))
        in if ip = [] \<and> fp = [] then NaN
           else Fin (sg * (real (digitsVal ip) + real (digitsVal fp) / 10 ^ length fp)
                       * pow10 (exponentPart r2)))"

text \<open>
  The state variables \<^verbatim>\<open>initialA\<close> and \<^verbatim>\<open>learningRate\<close> hold a number at first and
  the raw text of an input field after an edit. \<^verbatim>\<open>parseFloat\<close> of a number prints and
  re-reads it, which gives the number back.
\<close>

datatype jsval = Num jsnum | Str string

fun parseFloat :: "jsval \<Rightarrow> jsnum" where
  "parseFloat (Num v) = v"
| "parseFloat (Str s) = parseFloatStr s"

section \<open>Data model\<close>

text \<open>
  Field names carry a prefix, since a record field is a constant: \<open>px\<close>, \<open>py\<close> are the
  fields \<^verbatim>\<open>x\<close>, \<^verbatim>\<open>y\<close> of a data point, \<open>g_\<close> marks the fields of an element of
  \<^verbatim>\<open>pointGradients\<close>, \<open>h_\<close> those of an entry of \<^verbatim>\<open>gdHistory\<close>.
\<close>

record point =
  px :: jsnum
  py :: jsnum

record pointGradient =
  g_id :: nat
  g_x :: jsnum
  g_y :: jsnum
  g_prediction :: jsnum
  g_errorTerm :: jsnum
  g_contribution :: jsnum

record gradientDetails =
  finalGradient :: jsnum
  pointGradients :: "pointGradient list"

record historyEntry =
  h_step :: nat
  h_a :: jsnum
  h_mse :: jsnum
  h_gradient :: jsnum

record stepDetail =
  sd_pointGradients :: "pointGradient list"
  sd_finalGradient :: jsnum
  sd_currentA :: jsnum

section \<open>Calculations\<close>

text \<open>\<^verbatim>\<open>calculateMSE\<close>: the guard for the empty array, then \<^verbatim>\<open>reduce\<close> from 0.\<close>

definition mseAcc :: "jsnum \<Rightarrow> jsnum \<Rightarrow> point \<Rightarrow> jsnum" where
  "mseAcc a acc p =
     (let prediction = jmul a (px p);
          error = jsub prediction (py p)
      in jadd acc (jmul error error))"

definition calculateMSE :: "jsnum \<Rightarrow> point list \<Rightarrow> jsnum" where
  "calculateMSE a data =
     (if length data = 0 then Fin 0
      else
        let sumSquaredError = foldl (mseAcc a) (Fin 0) data
        in jdiv sumSquaredError (Fin (real (length data))))"

text \<open>
  \<^verbatim>\<open>calculateGradientDetails\<close>: \<^verbatim>\<open>data.map\<close> visits the points in order with their
  index and adds each contribution to the variable \<^verbatim>\<open>totalGradientSum\<close>; the loop state
  is the pair of that variable and the array built so far. There is no guard for the
  empty array before the division by \<^verbatim>\<open>n\<close>.
\<close>

definition gradStep :: "jsnum \<Rightarrow> jsnum \<times> pointGradient list \<Rightarrow> nat \<times> point
    \<Rightarrow> jsnum \<times> pointGradient list" where
  "gradStep a st ip =
     (let (totalGradientSum, out) = st;
          (index, p) = ip;
          prediction = jmul a (px p);
          errorTerm = jsub prediction (py p);
          contribution = jmul (jmul (Fin 2) errorTerm) (px p)
      in (jadd totalGradientSum contribution,
          out @ [\<lparr>g_id = index + 1, g_x = px p, g_y = py p, g_prediction = prediction,
                   g_errorTerm = errorTerm, g_contribution = contribution\<rparr>]))"

definition calculateGradientDetails :: "jsnum \<Rightarrow> point list \<Rightarrow> gradientDetails" where
  "calculateGradientDetails a data =
     (let n = length data;
          (totalGradientSum, pgs) = foldl (gradStep a) (Fin 0, []) (enumerate 0 data)
      in \<lparr>finalGradient = jdiv totalGradientSum (Fin (real n)), pointGradients = pgs\<rparr>)"

section \<open>Application state\<close>

text \<open>
  The state variables of the component \<^verbatim>\<open>App\<close>. \<open>timerArmed\<close> says that the timeout
  held in \<^verbatim>\<open>animationRef.current\<close> is pending.
\<close>

record state =
  dataPoints :: "point list"
  manualA :: jsnum
  learningRate :: jsval
  initialA :: jsval
  gdHistory :: "historyEntry list"
  isAnimating :: bool
  currentStep :: nat
  stepDetails :: "stepDetail option"
  timerArmed :: bool

definition iterations :: nat where
  "iterations = 30"

definition pt :: "real \<times> real \<Rightarrow> point" where
  "pt xy = \<lparr>px = Fin (fst xy), py = Fin (snd xy)\<rparr>"

definition initialState :: state where
  "initialState =
     \<lparr>dataPoints = map pt [(20, 45), (22, 50), (24, 55), (25, 60), (28, 65), (30, 72),
                           (31, 76), (33, 82), (34, 85), (35, 90)],
      manualA = Fin (3 / 2),
      learningRate = Num (Fin (1 / 100)),
      initialA = Num (Fin 0),
      gdHistory = [],
      isAnimating = False,
      currentStep = 0,
      stepDetails = None,
      timerArmed = False\<rparr>"

section \<open>Simulation and animation\<close>

text \<open>
  \<^verbatim>\<open>performSingleStep\<close> reads the state of the render that created it and queues its
  writes; the last write to a variable is the one the next render sees.
\<close>

definition performSingleStep :: "state \<Rightarrow> state" where
  "performSingleStep s =
     (let (startA, nextStepIndex, currentHistory, s1) =
            (if length (gdHistory s) > 0
             then (manualA s, currentStep s + 1, gdHistory s, s)
             else (parseFloat (initialA s), 0, [], s\<lparr>manualA := parseFloat (initialA s)\<rparr>))
      in if nextStepIndex > iterations then s1
         else
           let mse = calculateMSE startA (dataPoints s);
               gd = calculateGradientDetails startA (dataPoints s);
               newHistoryEntry = \<lparr>h_step = nextStepIndex,
                                  h_a = toFixed4 startA,
                                  h_mse = toFixed4 mse,
                                  h_gradient = toFixed4 (finalGradient gd)\<rparr>;
               newHistory = currentHistory @ [newHistoryEntry];
               nextA = jsub startA (jmul (parseFloat (learningRate s)) (finalGradient gd))
           in s1\<lparr>gdHistory := newHistory,
                 stepDetails := Some \<lparr>sd_pointGradients = pointGradients gd,
                                       sd_finalGradient = finalGradient gd,
                                       sd_currentA = startA\<rparr>,
                 currentStep := nextStepIndex,
                 manualA := nextA\<rparr>)"

text \<open>
  The remaining handlers take the state \<open>r\<close> of the render whose closure they are, from
  which every variable is read, and the state \<open>s\<close> that collects the writes queued so
  far in the running event.
\<close>

definition stopSimulation :: "state \<Rightarrow> state" where
  "stopSimulation s = s\<lparr>isAnimating := False, timerArmed := False\<rparr>"

definition startSimulation :: "state \<Rightarrow> state \<Rightarrow> state" where
  "startSimulation r s =
     (if isAnimating r then stopSimulation s
      else
        let s1 = (if length (gdHistory r) = 0
                  then s\<lparr>manualA := parseFloat (initialA r), currentStep := 0\<rparr>
                  else s)
        in s1\<lparr>isAnimating := True\<rparr>)"

definition resetSimulation :: "state \<Rightarrow> state \<Rightarrow> state" where
  "resetSimulation r s =
     (stopSimulation (s\<lparr>gdHistory := [], stepDetails := None\<rparr>))
       \<lparr>currentStep := 0, manualA := parseFloat (initialA r)\<rparr>"

datatype field = FieldX | FieldY

definition setField :: "field \<Rightarrow> jsnum \<Rightarrow> point \<Rightarrow> point" where
  "setField f v p = (case f of FieldX \<Rightarrow> p\<lparr>px := v\<rparr> | FieldY \<Rightarrow> p\<lparr>py := v\<rparr>)"

text \<open>
  \<^verbatim>\<open>handleDataChange\<close> is called by the input fields rendered for the existing points
  only, so \<open>index\<close> is below the length of the array; the list update covers that case.
\<close>

definition handleDataChange :: "state \<Rightarrow> nat \<Rightarrow> field \<Rightarrow> string \<Rightarrow> state \<Rightarrow> state" where
  "handleDataChange r index f v s =
     (let newData = (dataPoints r)[index := setField f (or0 (parseFloatStr v)) (dataPoints r ! index)]
      in resetSimulation r (s\<lparr>dataPoints := newData\<rparr>))"

definition resetAll :: "state \<Rightarrow> state \<Rightarrow> state" where
  "resetAll r s =
     resetSimulation r
       (s\<lparr>dataPoints := map pt [(1, 2), (2, 4), (3, 5), (4, 7), (5, 11), (6, 11),
                                 (7, 14), (8, 17), (9, 20), (10, 21)],
          initialA := Num (Fin 0)\<rparr>)"

text \<open>The \<^verbatim>\<open>onChange\<close> handlers of the slider and of the two hyperparameter fields.\<close>

definition onSliderChange :: "state \<Rightarrow> string \<Rightarrow> state \<Rightarrow> state" where
  "onSliderChange r v s = (stopSimulation s)\<lparr>manualA := parseFloatStr v\<rparr>"

definition onInitialAChange :: "state \<Rightarrow> string \<Rightarrow> state \<Rightarrow> state" where
  "onInitialAChange r v s = resetSimulation r (s\<lparr>initialA := Str v\<rparr>)"

definition onLearningRateChange :: "state \<Rightarrow> string \<Rightarrow> state \<Rightarrow> state" where
  "onLearningRateChange r v s = resetSimulation r (s\<lparr>learningRate := Str v\<rparr>)"

text \<open>
  The effect of \<^verbatim>\<open>useEffect\<close> runs after a render in which \<^verbatim>\<open>isAnimating\<close> or
  \<^verbatim>\<open>performSingleStep\<close> changed, and the callback changes with its dependencies. The
  cleanup clears the pending timeout, then a new one is set while animating.
\<close>

definition stepDeps :: "state \<Rightarrow> historyEntry list \<times> jsval \<times> jsnum \<times> nat \<times> point list \<times> jsval" where
  "stepDeps s = (gdHistory s, initialA s, manualA s, currentStep s, dataPoints s, learningRate s)"

definition runEffect :: "state \<Rightarrow> state \<Rightarrow> state" where
  "runEffect r s =
     (if isAnimating s \<noteq> isAnimating r \<or> stepDeps s \<noteq> stepDeps r
      then s\<lparr>timerArmed := isAnimating s\<rparr>
      else s)"

text \<open>
  The events the component receives, the handler of each, and when an event can occur:
  a data field exists for each point only, and the timeout fires only while pending. A
  single step is allowed in every state; the page disables its button while animating,
  which only removes behaviours.
\<close>

datatype event =
    ClickStep
  | ClickStart
  | ClickReset
  | ClickResetAll
  | EditData nat field string
  | EditInitialA string
  | EditLearningRate string
  | MoveSlider string
  | TimerFires

fun handler :: "event \<Rightarrow> state \<Rightarrow> state" where
  "handler ClickStep s = performSingleStep s"
| "handler ClickStart s = startSimulation s s"
| "handler ClickReset s = resetSimulation s s"
| "handler ClickResetAll s = resetAll s s"
| "handler (EditData i f v) s = handleDataChange s i f v s"
| "handler (EditInitialA v) s = onInitialAChange s v s"
| "handler (EditLearningRate v) s = onLearningRateChange s v s"
| "handler (MoveSlider v) s = onSliderChange s v s"
| "handler TimerFires s = performSingleStep (s\<lparr>timerArmed := False\<rparr>)"

fun enabled :: "event \<Rightarrow> state \<Rightarrow> bool" where
  "enabled (EditData i f v) s = (i < length (dataPoints s))"
| "enabled TimerFires s = timerArmed s"
| "enabled _ s = True"

definition fire :: "event \<Rightarrow> state \<Rightarrow> state" where
  "fire e s = runEffect s (handler e s)"

inductive reachable :: "state \<Rightarrow> bool" where
  reachable_init: "reachable initialState"
| reachable_fire: "reachable s \<Longrightarrow> enabled e s \<Longrightarrow> reachable (fire e s)"

section \<open>Notions used in the properties\<close>


text \<open>
  The invariant of the history log: the entry at index \<open>i\<close> has step \<open>i\<close>, there are at
  most \<open>iterations + 1\<close> entries, and while the log is not empty \<^verbatim>\<open>currentStep\<close> is
  the index of its last entry.
\<close>

definition historyInv :: "state \<Rightarrow> bool" where
  "historyInv s =
     ((\<forall>i < length (gdHistory s). h_step (gdHistory s ! i) = i) \<and>
      length (gdHistory s) \<le> iterations + 1 \<and>
      (gdHistory s \<noteq> [] \<longrightarrow> currentStep s + 1 = length (gdHistory s)))"









section \<open>Metric engine and gradient engine\<close>









text \<open>
  Claim C10. \<^verbatim>\<open>calculateGradientDetails\<close> has no guard for the empty dataset: on \<open>[]\<close> it
  returns no point gradients and the final gradient \<^verbatim>\<open>0 / 0\<close>, which is NaN, a value and
  not an error; \<^verbatim>\<open>calculateMSE\<close> has the guard and returns 0 there.
\<close>

theorem calculateGradientDetails_empty:
  "calculateGradientDetails a [] = \<lparr>finalGradient = NaN, pointGradients = []\<rparr> \<and>
   calculateMSE a [] = Fin 0"
  by (simp add: calculateGradientDetails_def calculateMSE_def inf_of_sign_def)

section \<open>Step controller\<close>

subsection \<open>A single step\<close>



subsection \<open>Manual override of the slope\<close>

text \<open>
  Claim C7. Moving the slider, in any state and to any value, clears \<^verbatim>\<open>isAnimating\<close> and
  the pending timeout, sets \<^verbatim>\<open>manualA\<close> to the parsed value, and leaves the history (so
  also its length) and \<^verbatim>\<open>currentStep\<close> as they were: no entry is appended.
\<close>

theorem onSliderChange_frame:
  "let s' = fire (MoveSlider v) s
   in \<not> isAnimating s' \<and> \<not> timerArmed s' \<and>
      gdHistory s' = gdHistory s \<and> length (gdHistory s') = length (gdHistory s) \<and>
      currentStep s' = currentStep s \<and>
      manualA s' = parseFloatStr v"
  by (simp add: fire_def runEffect_def onSliderChange_def stopSimulation_def Let_def)

theorem onSliderChange_frame_witness:
  "isAnimating (fire ClickStart initialState) \<and> timerArmed (fire ClickStart initialState) \<and>
   \<not> isAnimating (fire (MoveSlider ''2.5'') (fire ClickStart initialState)) \<and>
   \<not> timerArmed (fire (MoveSlider ''2.5'') (fire ClickStart initialState)) \<and>
   gdHistory (fire (MoveSlider ''2.5'') (fire ClickStart initialState)) = [] \<and>
   currentStep (fire (MoveSlider ''2.5'') (fire ClickStart initialState)) = 0 \<and>
   manualA (fire (MoveSlider ''2.5'') (fire ClickStart initialState)) = Fin (5 / 2)"
proof -
  have p: "parseFloatStr ''2.5'' = Fin (5 / 2)"
    by (simp add: parseFloatStr_def splitSign_def isWs_def isDigit_def digitsVal_def
        exponentPart_def pow10_def)
  have s: "isAnimating (fire ClickStart initialState) \<and> timerArmed (fire ClickStart initialState) \<and>
      gdHistory (fire ClickStart initialState) = [] \<and> currentStep (fire ClickStart initialState) = 0"
    by (simp add: fire_def runEffect_def startSimulation_def initialState_def stepDeps_def)
  from onSliderChange_frame [of "''2.5''" "fire ClickStart initialState"] p s
  show ?thesis by (simp add: Let_def)
qed

subsection \<open>Invariants of the history\<close>

lemma historyInv_empty: "gdHistory s = [] \<Longrightarrow> historyInv s"
  by (simp add: historyInv_def)

lemma historyInv_performSingleStep:
  assumes "historyInv s"
  shows "historyInv (performSingleStep s)"
proof (cases "gdHistory s = []")
  case True
  then show ?thesis
    by (simp add: performSingleStep_def Let_def iterations_def historyInv_def)
next
  case False
  then show ?thesis
    using assms
    by (auto simp: performSingleStep_def Let_def iterations_def historyInv_def nth_append)
qed

lemma gdHistory_resetSimulation [simp]: "gdHistory (resetSimulation r s) = []"
  by (simp add: resetSimulation_def stopSimulation_def)

lemma historyInv_handler:
  assumes "historyInv s"
  shows "historyInv (handler e s)"
proof (cases e)
  case ClickStep
  then show ?thesis using assms by (simp add: historyInv_performSingleStep)
next
  case ClickStart
  show ?thesis
  proof (cases "gdHistory s = []")
    case True
    then show ?thesis
      by (simp add: ClickStart startSimulation_def stopSimulation_def Let_def historyInv_def)
  next
    case False
    then show ?thesis
      using assms
      by (simp add: ClickStart startSimulation_def stopSimulation_def Let_def historyInv_def)
  qed
next
  case ClickReset
  then show ?thesis by (simp add: historyInv_empty)
next
  case ClickResetAll
  then show ?thesis by (simp add: historyInv_empty resetAll_def)
next
  case (EditData i f v)
  then show ?thesis by (simp add: historyInv_empty handleDataChange_def Let_def)
next
  case (EditInitialA v)
  then show ?thesis by (simp add: historyInv_empty onInitialAChange_def)
next
  case (EditLearningRate v)
  then show ?thesis by (simp add: historyInv_empty onLearningRateChange_def)
next
  case (MoveSlider v)
  then show ?thesis
    using assms by (simp add: onSliderChange_def stopSimulation_def historyInv_def)
next
  case TimerFires
  have "historyInv (s\<lparr>timerArmed := False\<rparr>)"
    using assms by (simp add: historyInv_def)
  then show ?thesis by (simp add: TimerFires historyInv_performSingleStep)
qed

lemma historyInv_runEffect: "historyInv s \<Longrightarrow> historyInv (runEffect r s)"
  by (simp add: runEffect_def historyInv_def)

lemma historyInv_reachable: "reachable s \<Longrightarrow> historyInv s"
proof (induction rule: reachable.induct)
  case reachable_init
  show ?case by (simp add: historyInv_def initialState_def)
next
  case (reachable_fire s e)
  then show ?case
    by (simp add: fire_def historyInv_runEffect historyInv_handler)
qed

text \<open>
  Claim C4. In every state reachable from the initial state by the events of the page
  (single steps, timer ticks, start and stop, resets, moves of the slider, edits of the
  data and of the two hyperparameters), the history entry at index \<open>i\<close> has step \<open>i\<close>, and
  the history has at most \<open>iterations + 1 = 31\<close> entries.
\<close>

theorem history_invariants:
  "reachable s \<Longrightarrow>
     (\<forall>i < length (gdHistory s). h_step (gdHistory s ! i) = i) \<and>
     length (gdHistory s) \<le> iterations + 1 \<and> iterations + 1 = 31"
  using historyInv_reachable [of s] by (simp add: historyInv_def iterations_def)

lemma gdHistory_first_step:
  "gdHistory (fire ClickStep initialState) =
     [\<lparr>h_step = 0, h_a = Fin 0, h_mse = Fin (24192 / 5), h_gradient = Fin (- (19902 / 5))\<rparr>]"
  by (simp add: fire_def runEffect_def performSingleStep_def initialState_def iterations_def
      calculateMSE_def calculateGradientDetails_def gradStep_def mseAcc_def pt_def jsub_def
      Let_def enumerate_eq_zip upt_rec)

theorem history_invariants_witness:
  "reachable (fire ClickStep initialState) \<and>
   length (gdHistory (fire ClickStep initialState)) = 1 \<and>
   h_step (gdHistory (fire ClickStep initialState) ! 0) = 0"
proof -
  have r: "reachable (fire ClickStep initialState)"
    by (rule reachable_fire [OF reachable_init]) (simp add: initialState_def)
  have l: "length (gdHistory (fire ClickStep initialState)) = 1"
    by (simp add: gdHistory_first_step)
  from history_invariants [OF r] l r show ?thesis by simp
qed

section \<open>Reset and input coercion\<close>

text \<open>What \<^verbatim>\<open>resetSimulation\<close> and the effect write, field by field.\<close>

lemma parseFloatStr_empty: "parseFloatStr '''' = NaN"
  by (simp add: parseFloatStr_def splitSign_def)

lemma resetSimulation_fields:
  "gdHistory (resetSimulation r s) = [] \<and> currentStep (resetSimulation r s) = 0 \<and>
   \<not> isAnimating (resetSimulation r s) \<and> \<not> timerArmed (resetSimulation r s) \<and>
   manualA (resetSimulation r s) = parseFloat (initialA r) \<and>
   stepDetails (resetSimulation r s) = None \<and>
   initialA (resetSimulation r s) = initialA s \<and>
   learningRate (resetSimulation r s) = learningRate s \<and>
   dataPoints (resetSimulation r s) = dataPoints s"
  by (simp add: resetSimulation_def stopSimulation_def)

lemma runEffect_fields:
  "gdHistory (runEffect r s) = gdHistory s \<and> currentStep (runEffect r s) = currentStep s \<and>
   isAnimating (runEffect r s) = isAnimating s \<and> manualA (runEffect r s) = manualA s \<and>
   initialA (runEffect r s) = initialA s \<and> learningRate (runEffect r s) = learningRate s \<and>
   dataPoints (runEffect r s) = dataPoints s \<and> stepDetails (runEffect r s) = stepDetails s"
  by (simp add: runEffect_def)

text \<open>
  After the reset button, an edit of a data field or an edit of the learning rate, the
  history is empty, \<^verbatim>\<open>currentStep\<close> is 0, the animation is off and \<^verbatim>\<open>manualA\<close> is the
  initial slope.
\<close>

lemma reset_post_other_triggers:
  assumes "e = ClickReset \<or> e = EditData i f v \<or> e = EditLearningRate v"
  shows "gdHistory (fire e s) = [] \<and> currentStep (fire e s) = 0 \<and>
         manualA (fire e s) = parseFloat (initialA (fire e s)) \<and> \<not> isAnimating (fire e s)"
  using assms
  by (auto simp: fire_def runEffect_fields resetSimulation_fields handleDataChange_def
      onLearningRateChange_def Let_def)

lemma reset_post_initialA_edit:
  "gdHistory (fire (EditInitialA v) s) = [] \<and> currentStep (fire (EditInitialA v) s) = 0 \<and>
   \<not> isAnimating (fire (EditInitialA v) s) \<and>
   manualA (fire (EditInitialA v) s) = parseFloat (initialA s) \<and>
   initialA (fire (EditInitialA v) s) = Str v"
  by (simp add: fire_def runEffect_fields resetSimulation_fields onInitialAChange_def)

text \<open>
  Claim C5. The handler of the initial slope field calls \<^verbatim>\<open>setInitialA\<close> and then
  \<^verbatim>\<open>resetSimulation\<close>, whose closure still reads the \<^verbatim>\<open>initialA\<close> of the current
  render. After the edit of the initial slope from 0 to 1 in the initial state the history
  is empty, \<^verbatim>\<open>currentStep\<close> is 0 and the animation is off, but \<^verbatim>\<open>manualA\<close> is the
  previous initial slope 0 and not the new one, 1.
\<close>

theorem reset_initialA_edit_stale:
  "gdHistory (fire (EditInitialA ''1'') initialState) = [] \<and>
   currentStep (fire (EditInitialA ''1'') initialState) = 0 \<and>
   \<not> isAnimating (fire (EditInitialA ''1'') initialState) \<and>
   parseFloat (initialA (fire (EditInitialA ''1'') initialState)) = Fin 1 \<and>
   manualA (fire (EditInitialA ''1'') initialState) = Fin 0 \<and>
   manualA (fire (EditInitialA ''1'') initialState) \<noteq>
     parseFloat (initialA (fire (EditInitialA ''1'') initialState))"
proof -
  have "parseFloatStr ''1'' = Fin 1"
    by (simp add: parseFloatStr_def splitSign_def isWs_def isDigit_def digitsVal_def
        exponentPart_def pow10_def)
  moreover have "parseFloat (initialA initialState) = Fin 0"
    by (simp add: initialState_def)
  ultimately show ?thesis
    using reset_post_initialA_edit [of "''1''" initialState] by simp
qed

text \<open>
  A text that \<^verbatim>\<open>parseFloat\<close> does not read as a number becomes 0 in a data field,
  through \<^verbatim>\<open>|| 0\<close>; the two hyperparameter fields store the text as it is.
\<close>

lemma handleDataChange_coerces:
  assumes "parseFloatStr v = NaN" and "i < length (dataPoints s)"
  shows "dataPoints (fire (EditData i FieldX v) s) ! i = (dataPoints s ! i)\<lparr>px := Fin 0\<rparr>"
    and "dataPoints (fire (EditData i FieldY v) s) ! i = (dataPoints s ! i)\<lparr>py := Fin 0\<rparr>"
  using assms
  by (simp_all add: fire_def runEffect_fields resetSimulation_fields handleDataChange_def
      Let_def setField_def or0_def)

text \<open>
  Claim C6. The empty text, which a number field delivers for an input that is not a
  number, is not coerced to 0 as initial slope or learning rate: \<^verbatim>\<open>parseFloat\<close> of it is
  NaN wherever the hyperparameter is read, so the next step records NaN and sets the
  slope to NaN. The same text in a data field becomes 0. No operation raises.
\<close>

theorem nonNumeric_hyperparameter_is_NaN:
  "parseFloatStr '''' = NaN \<and>
   parseFloat (initialA (fire (EditInitialA '''') initialState)) = NaN \<and>
   gdHistory (fire ClickStep (fire (EditInitialA '''') initialState)) =
     [\<lparr>h_step = 0, h_a = NaN, h_mse = NaN, h_gradient = NaN\<rparr>] \<and>
   manualA (fire ClickStep (fire (EditInitialA '''') initialState)) = NaN \<and>
   parseFloat (learningRate (fire (EditLearningRate '''') initialState)) = NaN \<and>
   manualA (fire ClickStep (fire (EditLearningRate '''') initialState)) = NaN \<and>
   dataPoints (fire (EditData 0 FieldX '''') initialState) ! 0 = \<lparr>px = Fin 0, py = Fin 45\<rparr>"
proof -
  have a: "fire (EditInitialA '''') initialState =
      initialState\<lparr>initialA := Str '''', manualA := Fin 0\<rparr>"
    by (simp add: fire_def runEffect_def stepDeps_def resetSimulation_def stopSimulation_def
        onInitialAChange_def initialState_def)
  have b: "fire (EditLearningRate '''') initialState =
      initialState\<lparr>learningRate := Str '''', manualA := Fin 0\<rparr>"
    by (simp add: fire_def runEffect_def stepDeps_def resetSimulation_def stopSimulation_def
        onLearningRateChange_def initialState_def)
  have c: "dataPoints (fire (EditData 0 FieldX '''') initialState) ! 0 = \<lparr>px = Fin 0, py = Fin 45\<rparr>"
    by (simp add: fire_def runEffect_fields resetSimulation_fields handleDataChange_def
      Let_def setField_def or0_def parseFloatStr_empty initialState_def pt_def)
  have d: "gdHistory (fire ClickStep (initialState\<lparr>initialA := Str '''', manualA := Fin 0\<rparr>)) =
       [\<lparr>h_step = 0, h_a = NaN, h_mse = NaN, h_gradient = NaN\<rparr>] \<and>
     manualA (fire ClickStep (initialState\<lparr>initialA := Str '''', manualA := Fin 0\<rparr>)) = NaN"
    by (simp add: parseFloatStr_empty fire_def runEffect_def performSingleStep_def
        initialState_def iterations_def calculateMSE_def calculateGradientDetails_def
        gradStep_def mseAcc_def pt_def jsub_def Let_def enumerate_eq_zip upt_rec inf_of_sign_def)
  have e: "manualA (fire ClickStep (initialState\<lparr>learningRate := Str '''', manualA := Fin 0\<rparr>)) = NaN"
    by (simp add: parseFloatStr_empty fire_def runEffect_def performSingleStep_def
        initialState_def iterations_def calculateMSE_def calculateGradientDetails_def
        gradStep_def mseAcc_def pt_def jsub_def Let_def enumerate_eq_zip upt_rec inf_of_sign_def)
  have f: "parseFloat (initialA (initialState\<lparr>initialA := Str '''', manualA := Fin 0\<rparr>)) = NaN"
    "parseFloat (learningRate (initialState\<lparr>learningRate := Str '''', manualA := Fin 0\<rparr>)) = NaN"
    by (simp_all add: parseFloatStr_empty)
  show ?thesis
    unfolding a b using c d e f parseFloatStr_empty by blast
qed

section \<open>Rounding of the recorded values\<close>







section \<open>Descent on a dataset on the line y = 2x\<close>

























end
